theory Spec2Isabelle
  imports Main "HOL-Library.Word"
begin

section \<open>Errors, strings and writers\<close>

text \<open>
  Go errors are values. \<open>ErrNotExist\<close> is the error for which \<open>os.IsNotExist\<close>
  holds, \<open>ErrOS\<close> any other error of the operating system, \<open>ErrWrite\<close> the
  failure of an \<open>io.Writer\<close>, \<open>ErrLib\<close> an error returned by a library or by the
  remote service, \<open>Errorf\<close> a \<open>fmt.Errorf\<close> without \<open>%w\<close>, \<open>Wrapf p e\<close> the
  error \<open>fmt.Errorf(p + ": %w", e)\<close>, and \<open>Panic\<close> a run-time panic.
\<close>

datatype error =
    ErrNotExist
  | ErrOS string
  | ErrWrite
  | ErrLib string
  | Errorf string
  | Wrapf string error
  | Panic string

definition bindE :: "error + 'a \<Rightarrow> ('a \<Rightarrow> error + 'b) \<Rightarrow> error + 'b" where
  "bindE r k = (case r of Inl e \<Rightarrow> Inl e | Inr v \<Rightarrow> k v)"

text \<open>Dereferencing a pointer: a nil pointer panics.\<close>

definition deref :: "'a option \<Rightarrow> error + 'a" where
  "deref p = (case p of None \<Rightarrow> Inl (Panic ''nil pointer dereference'') | Some v \<Rightarrow> Inr v)"

definition tab :: string where
  "tab = [CHR 0x09]"

definition newline :: string where
  "newline = [CHR 0x0A]"

text \<open>\<open>strings.Join(elems, sep)\<close>.\<close>

fun Join :: "string list \<Rightarrow> string \<Rightarrow> string" where
  "Join [] sep = []"
| "Join [x] sep = x"
| "Join (x # y # ys) sep = x @ sep @ Join (y # ys) sep"

text \<open>
  An \<open>io.Writer\<close>: the bytes it has accepted so far and the room it has left.
  A writer with \<open>room = None\<close> never fails; a writer with \<open>room = Some n\<close> accepts
  \<open>n\<close> more bytes and fails on the write that exceeds them, after a short write.
\<close>

record Writer =
  written :: string
  room :: "nat option"

definition Write :: "Writer \<Rightarrow> string \<Rightarrow> error option \<times> Writer" where
  "Write w p =
     (case room w of
        None \<Rightarrow> (None, w\<lparr>written := written w @ p\<rparr>)
      | Some n \<Rightarrow>
          if length p \<le> n
          then (None, w\<lparr>written := written w @ p, room := Some (n - length p)\<rparr>)
          else (Some ErrWrite, w\<lparr>written := written w @ take n p, room := Some 0\<rparr>))"

text \<open>\<open>fmt.Fprintln(w, s)\<close> for a string operand: the string and a newline, in one write.\<close>

definition Fprintln :: "Writer \<Rightarrow> string \<Rightarrow> error option \<times> Writer" where
  "Fprintln w s = Write w (s @ newline)"

section \<open>internal/output/formatter.go\<close>

type_synonym Format = string

definition FormatTable :: Format where
  "FormatTable = ''table''"

definition FormatJSON :: Format where
  "FormatJSON = ''json''"

definition FormatPlain :: Format where
  "FormatPlain = ''plain''"

record Table =
  headers :: "string list"
  rows :: "string list list"

text \<open>
  The values handed to \<open>Print\<close> as \<open>interface{}\<close>: the three shapes \<open>printPlain\<close>
  tells apart, a \<open>*Table\<close>, and any other value, named by an opaque tag.
\<close>

datatype Data =
    Rows "string list list"
  | Strs "string list"
  | Str string
  | TablePtr Table
  | Other string

text \<open>
  The library behind the formatter: \<open>json.Encoder.Encode\<close> with the indent set,
  the default formatting of \<open>fmt.Fprintln\<close> for a value that is not a string, and the
  column layout \<open>text/tabwriter\<close> gives the text written to it.
\<close>

record OutputLib =
  json_Encode :: "Data \<Rightarrow> error + string"
  fmt_Sprintln :: "Data \<Rightarrow> string"
  tabwriter_layout :: "string \<Rightarrow> string"

record Formatter =
  format :: Format
  writer :: Writer

text \<open>\<open>New\<close>; the state of \<open>os.Stdout\<close> is passed in.\<close>

definition New :: "string \<Rightarrow> Writer \<Rightarrow> Formatter" where
  "New fmt stdout =
     (let f = fmt;
          f = (if f \<noteq> FormatTable \<and> f \<noteq> FormatJSON \<and> f \<noteq> FormatPlain then FormatTable else f)
      in \<lparr>format = f, writer = stdout\<rparr>)"

definition SetWriter :: "Formatter \<Rightarrow> Writer \<Rightarrow> Formatter" where
  "SetWriter f w = f\<lparr>writer := w\<rparr>"

definition NewTable :: "string list \<Rightarrow> Table" where
  "NewTable hs = \<lparr>headers = hs, rows = []\<rparr>"

definition AddRow :: "Table \<Rightarrow> string list \<Rightarrow> Table" where
  "AddRow t cells = t\<lparr>rows := rows t @ [cells]\<rparr>"

definition ToPlain :: "Table \<Rightarrow> string list list" where
  "ToPlain t = rows t"

text \<open>
  \<open>Table.Render\<close>. The tabwriter buffers the lines written to it and lays them out
  when flushed; the lines are the header, the separator of dashes under a non-empty
  header, and the rows.
\<close>

definition Render :: "OutputLib \<Rightarrow> Table \<Rightarrow> Writer \<Rightarrow> error option \<times> Writer" where
  "Render lib t w =
     (let head = (if length (headers t) > 0
                  then [Join (headers t) tab,
                        Join (map (\<lambda>h. replicate (length h) CHR ''-'') (headers t)) tab]
                  else []);
          body = map (\<lambda>row. Join row tab) (rows t)
      in Write w (tabwriter_layout lib (concat (map (\<lambda>l. l @ newline) (head @ body)))))"

definition printJSON :: "OutputLib \<Rightarrow> Formatter \<Rightarrow> Data \<Rightarrow> error option \<times> Formatter" where
  "printJSON lib f data =
     (case json_Encode lib data of
        Inl e \<Rightarrow> (Some e, f)
      | Inr s \<Rightarrow> (case Write (writer f) s of (err, w') \<Rightarrow> (err, f\<lparr>writer := w'\<rparr>)))"

text \<open>The loop of \<open>printPlain\<close> over the rows: it stops at the first failed write.\<close>

fun printPlainRows :: "Writer \<Rightarrow> string list list \<Rightarrow> error option \<times> Writer" where
  "printPlainRows w [] = (None, w)"
| "printPlainRows w (row # rest) =
     (case Fprintln w (Join row tab) of
        (Some err, w') \<Rightarrow> (Some err, w')
      | (None, w') \<Rightarrow> printPlainRows w' rest)"

definition printPlain :: "OutputLib \<Rightarrow> Formatter \<Rightarrow> Data \<Rightarrow> error option \<times> Formatter" where
  "printPlain lib f data =
     (case data of
        Rows v \<Rightarrow> (case printPlainRows (writer f) v of (err, w') \<Rightarrow> (err, f\<lparr>writer := w'\<rparr>))
      | Strs v \<Rightarrow> (case Fprintln (writer f) (Join v tab) of (err, w') \<Rightarrow> (err, f\<lparr>writer := w'\<rparr>))
      | Str v \<Rightarrow> (case Fprintln (writer f) v of (err, w') \<Rightarrow> (err, f\<lparr>writer := w'\<rparr>))
      | _ \<Rightarrow> printJSON lib f data)"

definition printTable :: "OutputLib \<Rightarrow> Formatter \<Rightarrow> Data \<Rightarrow> error option \<times> Formatter" where
  "printTable lib f data =
     (case data of
        TablePtr v \<Rightarrow> (case Render lib v (writer f) of (err, w') \<Rightarrow> (err, f\<lparr>writer := w'\<rparr>))
      | Str v \<Rightarrow> (case Fprintln (writer f) v of (err, w') \<Rightarrow> (err, f\<lparr>writer := w'\<rparr>))
      | _ \<Rightarrow> (case Write (writer f) (fmt_Sprintln lib data) of (err, w') \<Rightarrow> (err, f\<lparr>writer := w'\<rparr>)))"

definition Print :: "OutputLib \<Rightarrow> Formatter \<Rightarrow> Data \<Rightarrow> error option \<times> Formatter" where
  "Print lib f data =
     (if format f = FormatJSON then printJSON lib f data
      else if format f = FormatPlain then printPlain lib f data
      else printTable lib f data)"

section \<open>The remote service\<close>

text \<open>
  A \<open>context.Context\<close> is either the background context or one with a timeout, in
  seconds. Time values are instants; \<open>zeroTime\<close> is the zero value \<open>time.Time{}\<close>.
\<close>

datatype Context = Background | WithTimeout nat

datatype Time = Instant int

definition zeroTime :: Time where
  "zeroTime = Instant 0"

datatype Location = UTC | Zone string

text \<open>The remote objects of the SDK: every getter may return nil.\<close>

record EmailAddressable =
  EmailAddressable_GetName :: "string option"
  EmailAddressable_GetAddress :: "string option"

record Recipientable =
  Recipientable_GetEmailAddress :: "EmailAddressable option"

record Messageable =
  Messageable_GetId :: "string option"
  Messageable_GetSubject :: "string option"
  Messageable_GetIsRead :: "bool option"
  Messageable_GetHasAttachments :: "bool option"
  Messageable_GetBodyPreview :: "string option"
  Messageable_GetFrom :: "Recipientable option"
  Messageable_GetToRecipients :: "Recipientable list option"
  Messageable_GetReceivedDateTime :: "Time option"






text \<open>
  The requests the modelled operations send: the query parameters of a message
  listing (a nil request configuration is \<open>None\<close>) and the body of a response to an
  invitation.
\<close>

record MessagesGetQueryParameters =
  qp_Top :: "32 word option"
  qp_Skip :: "32 word option"
  qp_Filter :: "string option"
  qp_Orderby :: "string list"
  qp_Select :: "string list"

record RespondPostRequestBody =
  GetComment :: "string option"
  GetSendResponse :: "bool option"

datatype Request =
    MessagesGet "MessagesGetQueryParameters option"
  | MailFolderMessagesGet string "MessagesGetQueryParameters option"
  | EventAcceptPost string RespondPostRequestBody
  | EventDeclinePost string RespondPostRequestBody
  | EventTentativelyAcceptPost string RespondPostRequestBody

text \<open>
  The Graph client: the requests sent so far, each with the context it was sent under,
  and what the service answers to a request.
\<close>

record GraphServiceClient =
  sent :: "(Context \<times> Request) list"
  messagesReply :: "Request \<Rightarrow> error + Messageable list"
  postReply :: "Request \<Rightarrow> error option"

definition nonNil :: "'a option \<Rightarrow> bool" where
  "nonNil p = (p \<noteq> None)"

section \<open>internal/mail\<close>

record Message =
  Message_ID :: string
  Message_Subject :: string
  Message_From :: string
  Message_To :: "string list"
  Message_ReceivedAt :: Time
  Message_IsRead :: bool
  Message_HasAttachments :: bool
  Message_BodyPreview :: string
  Message_Body :: string
  Message_BodyContentType :: string

record ListOptions =
  Top :: "32 word"
  Skip :: "32 word"
  Filter :: string
  OrderBy :: string
  UnreadOnly :: bool
  FolderID :: string

definition safeString :: "string option \<Rightarrow> string" where
  "safeString s = (case s of None \<Rightarrow> [] | Some v \<Rightarrow> v)"

definition safeBool :: "bool option \<Rightarrow> bool" where
  "safeBool b = (case b of None \<Rightarrow> False | Some v \<Rightarrow> v)"

text \<open>The loop of \<open>convertMessage\<close> over the recipients, appending to \<open>m.To\<close>.\<close>

fun appendAddresses :: "string list \<Rightarrow> Recipientable list \<Rightarrow> error + string list" where
  "appendAddresses acc [] = Inr acc"
| "appendAddresses acc (r # rs) =
     (if nonNil (Recipientable_GetEmailAddress r)
      then bindE (deref (Recipientable_GetEmailAddress r))
             (\<lambda>addr. appendAddresses (acc @ [safeString (EmailAddressable_GetAddress addr)]) rs)
      else appendAddresses acc rs)"

definition convertMessage :: "Messageable \<Rightarrow> error + Message" where
  "convertMessage msg =
     (let m = \<lparr>Message_ID = safeString (Messageable_GetId msg),
               Message_Subject = safeString (Messageable_GetSubject msg),
               Message_From = [],
               Message_To = [],
               Message_ReceivedAt = zeroTime,
               Message_IsRead = safeBool (Messageable_GetIsRead msg),
               Message_HasAttachments = safeBool (Messageable_GetHasAttachments msg),
               Message_BodyPreview = safeString (Messageable_GetBodyPreview msg),
               Message_Body = [],
               Message_BodyContentType = []\<rparr>
      in
      bindE (if nonNil (Messageable_GetFrom msg)
             then bindE (deref (Messageable_GetFrom msg)) (\<lambda>from.
                    if nonNil (Recipientable_GetEmailAddress from)
                    then bindE (deref (Recipientable_GetEmailAddress from)) (\<lambda>addr.
                           let name = safeString (EmailAddressable_GetName addr);
                               email = safeString (EmailAddressable_GetAddress addr)
                           in if name \<noteq> [] \<and> name \<noteq> email
                              then Inr (m\<lparr>Message_From := name @ '' <'' @ email @ ''>''\<rparr>)
                              else Inr (m\<lparr>Message_From := email\<rparr>))
                    else Inr m)
             else Inr m) (\<lambda>m.
      bindE (if nonNil (Messageable_GetToRecipients msg)
             then bindE (deref (Messageable_GetToRecipients msg)) (\<lambda>recipients.
                    bindE (appendAddresses (Message_To m) recipients) (\<lambda>to.
                      Inr (m\<lparr>Message_To := to\<rparr>)))
             else Inr m) (\<lambda>m.
      bindE (if nonNil (Messageable_GetReceivedDateTime msg)
             then bindE (deref (Messageable_GetReceivedDateTime msg)) (\<lambda>received.
                    Inr (m\<lparr>Message_ReceivedAt := received\<rparr>))
             else Inr m) (\<lambda>m.
      Inr m))))"

text \<open>The loop of \<open>ListMessages\<close> over the returned messages.\<close>

fun appendMessages :: "Message list \<Rightarrow> Messageable list \<Rightarrow> error + Message list" where
  "appendMessages messages [] = Inr messages"
| "appendMessages messages (msg # rest) =
     bindE (convertMessage msg) (\<lambda>m. appendMessages (messages @ [m]) rest)"

text \<open>
  \<open>ListMessages\<close> in two parts: the query parameters it builds from the options,
  and the request it then sends, to the folder when \<open>FolderID\<close> is set and to the
  mailbox otherwise.
\<close>

definition buildRequestConfig :: "ListOptions \<Rightarrow> MessagesGetQueryParameters" where
  "buildRequestConfig opts =
     (let top = Top opts;
          top = (if top = 0 then 25 else top);
          orderBy = OrderBy opts;
          orderBy = (if orderBy = [] then ''receivedDateTime desc'' else orderBy);
          filter = Filter opts;
          filter = (if UnreadOnly opts
                    then (if filter \<noteq> [] then ''('' @ filter @ '') and isRead eq false''
                          else ''isRead eq false'')
                    else filter);
          requestConfig = \<lparr>qp_Top = Some top, qp_Skip = None, qp_Filter = None,
                           qp_Orderby = [orderBy],
                           qp_Select = [''id'', ''subject'', ''from'', ''toRecipients'',
                                        ''receivedDateTime'', ''isRead'', ''hasAttachments'',
                                        ''bodyPreview'']\<rparr>;
          requestConfig = (if filter \<noteq> [] then requestConfig\<lparr>qp_Filter := Some filter\<rparr>
                           else requestConfig);
          requestConfig = (if 0 < sint (Skip opts) then requestConfig\<lparr>qp_Skip := Some (Skip opts)\<rparr>
                           else requestConfig)
      in requestConfig)"

definition ListMessages ::
  "Context \<Rightarrow> GraphServiceClient \<Rightarrow> ListOptions \<Rightarrow> (error + Message list) \<times> GraphServiceClient" where
  "ListMessages ctx client opts =
     (let requestConfig = buildRequestConfig opts;
          request = (if FolderID opts \<noteq> []
                     then MailFolderMessagesGet (FolderID opts) None
                     else MessagesGet (Some requestConfig));
          client = client\<lparr>sent := sent client @ [(ctx, request)]\<rparr>
      in case messagesReply client request of
           Inl err \<Rightarrow> (Inl (Wrapf ''failed to list messages'' err), client)
         | Inr value \<Rightarrow> (appendMessages [] value, client))"



section \<open>internal/calendar\<close>








text \<open>
  \<open>RespondToEvent\<close>. Each valid response builds its request body, sets the comment
  and the send-response flag, and posts it; any other response is refused before
  anything is sent.
\<close>

definition RespondToEvent ::
  "Context \<Rightarrow> GraphServiceClient \<Rightarrow> string \<Rightarrow> string \<Rightarrow> string \<Rightarrow> error option \<times> GraphServiceClient" where
  "RespondToEvent ctx client eventID response comment =
     (let sendResponse = True;
          body = \<lparr>GetComment = None, GetSendResponse = None\<rparr>;
          body = body\<lparr>GetComment := Some comment\<rparr>;
          body = body\<lparr>GetSendResponse := Some sendResponse\<rparr>
      in
      if response = ''accept'' then
        (let request = EventAcceptPost eventID body;
             client = client\<lparr>sent := sent client @ [(ctx, request)]\<rparr>
         in case postReply client request of
              Some err \<Rightarrow> (Some (Wrapf ''failed to accept event'' err), client)
            | None \<Rightarrow> (None, client))
      else if response = ''decline'' then
        (let request = EventDeclinePost eventID body;
             client = client\<lparr>sent := sent client @ [(ctx, request)]\<rparr>
         in case postReply client request of
              Some err \<Rightarrow> (Some (Wrapf ''failed to decline event'' err), client)
            | None \<Rightarrow> (None, client))
      else if response = ''tentative'' then
        (let request = EventTentativelyAcceptPost eventID body;
             client = client\<lparr>sent := sent client @ [(ctx, request)]\<rparr>
         in case postReply client request of
              Some err \<Rightarrow> (Some (Wrapf ''failed to tentatively accept event'' err), client)
            | None \<Rightarrow> (None, client))
      else (Some (Errorf (''invalid response: '' @ response @ '' (use accept, decline, or tentative)'')),
            client))"

section \<open>The operating system and the libraries of config and auth\<close>

text \<open>
  The part of the operating system the program touches: the home directory
  (\<open>None\<close> when \<open>os.UserHomeDir\<close> fails), the files by path, and the paths on which
  creating a directory, writing, reading or removing is refused. Directories are not
  tracked beyond that.
\<close>

record World =
  homeDir :: "string option"
  files :: "string \<rightharpoonup> string"
  mkdir_denied :: "string set"
  write_denied :: "string set"
  read_denied :: "string set"
  remove_denied :: "string set"

definition os_UserHomeDir :: "World \<Rightarrow> error + string" where
  "os_UserHomeDir w =
     (case homeDir w of None \<Rightarrow> Inl (ErrOS ''$HOME is not defined'') | Some h \<Rightarrow> Inr h)"

definition os_IsNotExist :: "error \<Rightarrow> bool" where
  "os_IsNotExist err = (err = ErrNotExist)"

definition os_ReadFile :: "World \<Rightarrow> string \<Rightarrow> error + string" where
  "os_ReadFile w path =
     (case files w path of
        None \<Rightarrow> Inl ErrNotExist
      | Some data \<Rightarrow> if path \<in> read_denied w then Inl (ErrOS ''permission denied'') else Inr data)"

definition os_WriteFile :: "World \<Rightarrow> string \<Rightarrow> string \<Rightarrow> error option \<times> World" where
  "os_WriteFile w path data =
     (if path \<in> write_denied w then (Some (ErrOS ''permission denied''), w)
      else (None, w\<lparr>files := (files w)(path \<mapsto> data)\<rparr>))"

definition os_MkdirAll :: "World \<Rightarrow> string \<Rightarrow> error option \<times> World" where
  "os_MkdirAll w dir =
     (if dir \<in> mkdir_denied w then (Some (ErrOS ''permission denied''), w) else (None, w))"


record Config =
  Config_ClientID :: string

record AuthenticationRecord =
  Record_Authority :: string
  Record_ClientID :: string
  Record_HomeAccountID :: string
  Record_TenantID :: string
  Record_Username :: string
  Record_Version :: string

definition zeroAuthenticationRecord :: AuthenticationRecord where
  "zeroAuthenticationRecord =
     \<lparr>Record_Authority = [], Record_ClientID = [], Record_HomeAccountID = [],
      Record_TenantID = [], Record_Username = [], Record_Version = []\<rparr>"

text \<open>
  The options of a device-code credential; \<open>Options_UserPrompt\<close> tells whether a
  prompt callback is supplied. A credential is the options it was made from.
\<close>

record DeviceCodeCredentialOptions =
  Options_ClientID :: string
  Options_TenantID :: string
  Options_AuthenticationRecord :: AuthenticationRecord
  Options_DisableAutomaticAuthentication :: bool
  Options_UserPrompt :: bool

datatype DeviceCodeCredential = Credential DeviceCodeCredentialOptions

text \<open>
  The libraries: \<open>filepath.Join\<close> and \<open>filepath.Dir\<close>, \<open>json.MarshalIndent\<close> and
  \<open>json.Unmarshal\<close> at the two types they are used at, and the identity library: the
  error, if any, of making a credential, the interactive \<open>Authenticate\<close>, and whether
  \<open>GetToken\<close> fails.
\<close>

record Lib =
  filepath_Join :: "string list \<Rightarrow> string"
  filepath_Dir :: "string \<Rightarrow> string"
  json_MarshalIndent_Config :: "Config \<Rightarrow> error + string"
  json_Unmarshal_Config :: "string \<Rightarrow> error + Config"
  json_MarshalIndent_Record :: "AuthenticationRecord \<Rightarrow> error + string"
  json_Unmarshal_Record :: "string \<Rightarrow> error + AuthenticationRecord"
  azidentity_credentialError :: "DeviceCodeCredentialOptions \<Rightarrow> error option"
  azidentity_Authenticate :: "Context \<Rightarrow> DeviceCodeCredential \<Rightarrow> string list \<Rightarrow> error + AuthenticationRecord"
  azidentity_GetToken :: "Context \<Rightarrow> DeviceCodeCredential \<Rightarrow> string list \<Rightarrow> error option"

definition NewDeviceCodeCredential :: "Lib \<Rightarrow> DeviceCodeCredentialOptions \<Rightarrow> error + DeviceCodeCredential" where
  "NewDeviceCodeCredential lib options =
     (case azidentity_credentialError lib options of
        Some err \<Rightarrow> Inl err
      | None \<Rightarrow> Inr (Credential options))"

section \<open>internal/config\<close>

definition configDirName :: string where
  "configDirName = ''octl''"

definition configFileName :: string where
  "configFileName = ''config.json''"

definition configDir :: "Lib \<Rightarrow> World \<Rightarrow> error + string" where
  "configDir lib w =
     (case os_UserHomeDir w of
        Inl err \<Rightarrow> Inl (Wrapf ''failed to get home directory'' err)
      | Inr home \<Rightarrow> Inr (filepath_Join lib [home, ''.config'', configDirName]))"

definition ConfigDir :: "Lib \<Rightarrow> World \<Rightarrow> error + string" where
  "ConfigDir lib w = configDir lib w"

definition configPath :: "Lib \<Rightarrow> World \<Rightarrow> error + string" where
  "configPath lib w =
     (case configDir lib w of
        Inl err \<Rightarrow> Inl err
      | Inr dir \<Rightarrow> Inr (filepath_Join lib [dir, configFileName]))"



section \<open>internal/auth\<close>

definition authRecordFileName :: string where
  "authRecordFileName = ''auth_record.json''"

definition Scopes :: "string list" where
  "Scopes = [''User.Read'', ''Mail.Read'', ''Mail.ReadWrite'', ''Mail.Send'',
             ''Calendars.Read'', ''Calendars.ReadWrite'', ''offline_access'']"

record Manager =
  clientID :: string
  credential :: "DeviceCodeCredential option"
  record' :: "AuthenticationRecord option"

definition NewManager :: "string \<Rightarrow> Manager" where
  "NewManager cid = \<lparr>clientID = cid, credential = None, record' = None\<rparr>"

definition authRecordPath :: "Lib \<Rightarrow> World \<Rightarrow> error + string" where
  "authRecordPath lib w =
     (case ConfigDir lib w of
        Inl err \<Rightarrow> Inl err
      | Inr dir \<Rightarrow> Inr (filepath_Join lib [dir, authRecordFileName]))"

definition saveAuthRecord :: "Lib \<Rightarrow> Manager \<Rightarrow> World \<Rightarrow> error option \<times> World" where
  "saveAuthRecord lib m w =
     (case record' m of
        None \<Rightarrow> (Some (Errorf ''no auth record to save''), w)
      | Some record \<Rightarrow>
          (case authRecordPath lib w of
             Inl err \<Rightarrow> (Some err, w)
           | Inr path \<Rightarrow>
               (let dir = filepath_Dir lib path in
                case os_MkdirAll w dir of
                  (Some err, w) \<Rightarrow> (Some (Wrapf ''failed to create config directory'' err), w)
                | (None, w) \<Rightarrow>
                    (case json_MarshalIndent_Record lib record of
                       Inl err \<Rightarrow> (Some (Wrapf ''failed to marshal auth record'' err), w)
                     | Inr data \<Rightarrow>
                         (case os_WriteFile w path data of
                            (Some err, w) \<Rightarrow> (Some (Wrapf ''failed to write auth record'' err), w)
                          | (None, w) \<Rightarrow> (None, w))))))"

definition loadAuthRecord :: "Lib \<Rightarrow> World \<Rightarrow> error + AuthenticationRecord" where
  "loadAuthRecord lib w =
     (case authRecordPath lib w of
        Inl err \<Rightarrow> Inl err
      | Inr path \<Rightarrow>
          (case os_ReadFile w path of
             Inl err \<Rightarrow>
               if os_IsNotExist err
               then Inl (Errorf (''not logged in - run '' @ [CHR 0x27] @ ''octl auth login'' @ [CHR 0x27] @ '' first''))
               else Inl (Wrapf ''failed to read auth record'' err)
           | Inr data \<Rightarrow>
               (case json_Unmarshal_Record lib data of
                  Inl err \<Rightarrow> Inl (Wrapf ''failed to parse auth record'' err)
                | Inr record \<Rightarrow> Inr record)))"

definition Login :: "Lib \<Rightarrow> Context \<Rightarrow> Manager \<Rightarrow> World \<Rightarrow> error option \<times> Manager \<times> World" where
  "Login lib ctx m w =
     (case NewDeviceCodeCredential lib
             \<lparr>Options_ClientID = clientID m,
              Options_TenantID = ''common'',
              Options_AuthenticationRecord = zeroAuthenticationRecord,
              Options_DisableAutomaticAuthentication = False,
              Options_UserPrompt = True\<rparr> of
        Inl err \<Rightarrow> (Some (Wrapf ''failed to create credential'' err), m, w)
      | Inr cred \<Rightarrow>
          (let m = m\<lparr>credential := Some cred\<rparr> in
           case azidentity_Authenticate lib ctx cred Scopes of
             Inl err \<Rightarrow> (Some (Wrapf ''authentication failed'' err), m, w)
           | Inr record \<Rightarrow>
               (let m = m\<lparr>record' := Some record\<rparr> in
                case saveAuthRecord lib m w of
                  (Some err, w) \<Rightarrow> (Some (Wrapf ''failed to save auth record'' err), m, w)
                | (None, w) \<Rightarrow> (None, m, w))))"

definition LoadCredential :: "Lib \<Rightarrow> Manager \<Rightarrow> World \<Rightarrow> error option \<times> Manager" where
  "LoadCredential lib m w =
     (case loadAuthRecord lib w of
        Inl err \<Rightarrow> (Some err, m)
      | Inr record \<Rightarrow>
          (case NewDeviceCodeCredential lib
                  \<lparr>Options_ClientID = clientID m,
                   Options_TenantID = ''common'',
                   Options_AuthenticationRecord = record,
                   Options_DisableAutomaticAuthentication = True,
                   Options_UserPrompt = False\<rparr> of
             Inl err \<Rightarrow> (Some (Wrapf ''failed to create credential'' err), m)
           | Inr cred \<Rightarrow> (None, m\<lparr>credential := Some cred, record' := Some record\<rparr>)))"



definition GetUserInfo :: "Manager \<Rightarrow> string \<times> string" where
  "GetUserInfo m =
     (case record' m of
        None \<Rightarrow> ([], [])
      | Some record \<Rightarrow> (Record_Username record, Record_HomeAccountID record))"

section \<open>The strings package\<close>
















section \<open>Runes\<close>






section \<open>StripHTML\<close>




section \<open>What StripHTML is said to do\<close>









text \<open>For each character, whether the loop of \<open>StripHTML\<close> writes it.\<close>

fun writes :: "bool \<Rightarrow> string list \<Rightarrow> bool list" where
  "writes inTag [] = []"
| "writes inTag (r # rs) =
     (if r = ''<'' then False # writes True rs
      else if r = ''>'' then False # writes False rs
      else (\<not> inTag) # writes inTag rs)"

section \<open>Postconditions of fallible computations\<close>

text \<open>
  \<open>post r Q\<close>: the computation \<open>r\<close> returns a value, without error or panic, and
  the value satisfies \<open>Q\<close>.
\<close>

definition post :: "error + 'a \<Rightarrow> ('a \<Rightarrow> bool) \<Rightarrow> bool" where
  "post r Q = (case r of Inl e \<Rightarrow> False | Inr v \<Rightarrow> Q v)"





section \<open>An example environment\<close>

text \<open>
  An example environment: paths joined with slashes, a codec that stores the client
  id and the user name as they are, an identity library that always succeeds, and a
  world with a home directory and no files.
\<close>

definition exampleRecord :: AuthenticationRecord where
  "exampleRecord = zeroAuthenticationRecord\<lparr>Record_Username := ''user''\<rparr>"

definition exampleLib :: Lib where
  "exampleLib =
     \<lparr>filepath_Join = (\<lambda>elems. Join elems ''/''),
      filepath_Dir = (\<lambda>path. ''/home/u/.config/octl''),
      json_MarshalIndent_Config = (\<lambda>cfg. Inr (Config_ClientID cfg)),
      json_Unmarshal_Config = (\<lambda>data. Inr \<lparr>Config_ClientID = data\<rparr>),
      json_MarshalIndent_Record = (\<lambda>record. Inr (Record_Username record)),
      json_Unmarshal_Record = (\<lambda>data. Inr (zeroAuthenticationRecord\<lparr>Record_Username := data\<rparr>)),
      azidentity_credentialError = (\<lambda>options. None),
      azidentity_Authenticate = (\<lambda>ctx cred scopes. Inr exampleRecord),
      azidentity_GetToken = (\<lambda>ctx cred scopes. None)\<rparr>"

definition exampleWorld :: World where
  "exampleWorld = \<lparr>homeDir = Some ''/home/u'', files = Map.empty, mkdir_denied = {},
                    write_denied = {}, read_denied = {}, remove_denied = {}\<rparr>"


section \<open>Output formatting: proofs\<close>

lemma Write_unbounded:
  "room w = None \<Longrightarrow> Write w p = (None, w\<lparr>written := written w @ p\<rparr>)"
  by (simp add: Write_def)

lemma printPlainRows_unbounded:
  "room w = None \<Longrightarrow>
   printPlainRows w rs =
     (None, w\<lparr>written := written w @ concat (map (\<lambda>row. Join row tab @ newline) rs)\<rparr>)"
proof (induction rs arbitrary: w)
  case Nil
  then show ?case by simp
next
  case (Cons row rest)
  let ?w1 = "w\<lparr>written := written w @ Join row tab @ newline\<rparr>"
  have step: "Fprintln w (Join row tab) = (None, ?w1)"
    using Cons.prems by (simp add: Fprintln_def Write_unbounded)
  have "room ?w1 = None"
    using Cons.prems by simp
  from Cons.IH [OF this] step show ?case
    by simp
qed

text \<open>
  C3. In the plain format, on a writer that does not fail, \<open>Print\<close> writes one line per
  row of a 2D string array, each the row's cells joined by one tab and ended by a
  newline; for a string slice it writes one such line; for a bare string it writes the
  string and a newline.
\<close>

theorem Print_plain_lines:
  assumes "room w = None"
  shows "Print lib (New ''plain'' w) (Rows rs) =
           (None, \<lparr>format = FormatPlain,
                   writer = w\<lparr>written := written w @ concat (map (\<lambda>row. Join row tab @ newline) rs)\<rparr>\<rparr>)
       \<and> Print lib (New ''plain'' w) (Strs cells) =
           (None, \<lparr>format = FormatPlain, writer = w\<lparr>written := written w @ Join cells tab @ newline\<rparr>\<rparr>)
       \<and> Print lib (New ''plain'' w) (Str s) =
           (None, \<lparr>format = FormatPlain, writer = w\<lparr>written := written w @ s @ newline\<rparr>\<rparr>)"
  using assms
  by (simp add: Print_def New_def printPlain_def FormatPlain_def FormatJSON_def FormatTable_def
      printPlainRows_unbounded Fprintln_def Write_unbounded)

theorem Print_plain_lines_witness:
  "room \<lparr>written = [], room = None\<rparr> = None
   \<and> Print \<lparr>json_Encode = (\<lambda>d. Inr []), fmt_Sprintln = (\<lambda>d. []), tabwriter_layout = (\<lambda>s. s)\<rparr>
        (New ''plain'' \<lparr>written = [], room = None\<rparr>) (Rows [[''a'', ''b''], [''c'']]) =
     (None, \<lparr>format = ''plain'',
             writer = \<lparr>written = [CHR ''a'', CHR 0x09, CHR ''b'', CHR 0x0A, CHR ''c'', CHR 0x0A],
                       room = None\<rparr>\<rparr>)"
  using Print_plain_lines [of "\<lparr>written = [], room = None\<rparr>"
      "\<lparr>json_Encode = (\<lambda>d. Inr []), fmt_Sprintln = (\<lambda>d. []), tabwriter_layout = (\<lambda>s. s)\<rparr>"
      "[[''a'', ''b''], [''c'']]"]
  by (simp add: FormatPlain_def tab_def newline_def)

text \<open>
  C9. For a format string other than \<open>table\<close>, \<open>json\<close> and \<open>plain\<close>, the empty string
  included, \<open>New\<close> returns a formatter whose format is table; \<open>Print\<close> on it takes the
  table branch, and does exactly what it does on a formatter made for \<open>table\<close>.
\<close>

theorem New_unrecognized_is_table:
  assumes "fmt \<noteq> ''table''" and "fmt \<noteq> ''json''" and "fmt \<noteq> ''plain''"
  shows "format (New fmt w) = FormatTable
       \<and> Print lib (New fmt w) data = printTable lib (New fmt w) data
       \<and> Print lib (New fmt w) data = Print lib (New ''table'' w) data"
  using assms
  by (simp add: New_def Print_def FormatTable_def FormatJSON_def FormatPlain_def)

theorem New_unrecognized_is_table_witness:
  "''invalid'' \<noteq> ''table'' \<and> ''invalid'' \<noteq> ''json'' \<and> ''invalid'' \<noteq> ''plain''
   \<and> format (New ''invalid'' \<lparr>written = [], room = None\<rparr>) = FormatTable
   \<and> Print \<lparr>json_Encode = (\<lambda>d. Inr []), fmt_Sprintln = (\<lambda>d. ''x''), tabwriter_layout = (\<lambda>s. s)\<rparr>
        (New ''invalid'' \<lparr>written = [], room = None\<rparr>) (Str ''x'')
     = Print \<lparr>json_Encode = (\<lambda>d. Inr []), fmt_Sprintln = (\<lambda>d. ''x''), tabwriter_layout = (\<lambda>s. s)\<rparr>
        (New ''table'' \<lparr>written = [], room = None\<rparr>) (Str ''x'')"
proof -
  have h: "''invalid'' \<noteq> ''table''" "''invalid'' \<noteq> ''json''" "''invalid'' \<noteq> ''plain''"
    by simp_all
  from New_unrecognized_is_table [OF h] h show ?thesis
    by blast
qed

section \<open>Calendar responses and message listing: proofs\<close>

text \<open>
  C4. For a response other than \<open>accept\<close>, \<open>decline\<close> and \<open>tentative\<close>,
  \<open>RespondToEvent\<close> returns the invalid-response error and leaves the client as it
  was: nothing is sent. For each valid value it sends exactly one request, the
  matching Accept, Decline or TentativelyAccept post for the event, with the given
  comment and \<open>sendResponse\<close> set to true.
\<close>

theorem RespondToEvent_requests:
  "(response \<noteq> ''accept'' \<and> response \<noteq> ''decline'' \<and> response \<noteq> ''tentative'' \<longrightarrow>
      RespondToEvent ctx client eventID response comment =
        (Some (Errorf (''invalid response: '' @ response @ '' (use accept, decline, or tentative)'')),
         client))
   \<and> sent (snd (RespondToEvent ctx client eventID ''accept'' comment)) =
       sent client @ [(ctx, EventAcceptPost eventID \<lparr>GetComment = Some comment, GetSendResponse = Some True\<rparr>)]
   \<and> sent (snd (RespondToEvent ctx client eventID ''decline'' comment)) =
       sent client @ [(ctx, EventDeclinePost eventID \<lparr>GetComment = Some comment, GetSendResponse = Some True\<rparr>)]
   \<and> sent (snd (RespondToEvent ctx client eventID ''tentative'' comment)) =
       sent client @ [(ctx, EventTentativelyAcceptPost eventID \<lparr>GetComment = Some comment, GetSendResponse = Some True\<rparr>)]"
  by (simp add: RespondToEvent_def Let_def split: option.split)

theorem RespondToEvent_requests_witness:
  "''maybe'' \<noteq> ''accept'' \<and> ''maybe'' \<noteq> ''decline'' \<and> ''maybe'' \<noteq> ''tentative''
   \<and> RespondToEvent (WithTimeout 30)
        \<lparr>sent = [], messagesReply = (\<lambda>r. Inr []), postReply = (\<lambda>r. None)\<rparr> ''E1'' ''maybe'' ''hi'' =
       (Some (Errorf ''invalid response: maybe (use accept, decline, or tentative)''),
        \<lparr>sent = [], messagesReply = (\<lambda>r. Inr []), postReply = (\<lambda>r. None)\<rparr>)"
  using RespondToEvent_requests [of "''maybe''" "WithTimeout 30"
      "\<lparr>sent = [], messagesReply = (\<lambda>r. Inr []), postReply = (\<lambda>r. None)\<rparr>" "''E1''" "''hi''"]
  by simp

lemma buildRequestConfig_fields:
  "qp_Top (buildRequestConfig opts) = Some (if Top opts = 0 then 25 else Top opts)"
  "qp_Orderby (buildRequestConfig opts) = [if OrderBy opts = [] then ''receivedDateTime desc'' else OrderBy opts]"
  "qp_Skip (buildRequestConfig opts) = (if 0 < sint (Skip opts) then Some (Skip opts) else None)"
  "qp_Filter (buildRequestConfig opts) =
     (if UnreadOnly opts
      then (if Filter opts \<noteq> [] then Some (''('' @ Filter opts @ '') and isRead eq false'')
            else Some ''isRead eq false'')
      else (if Filter opts \<noteq> [] then Some (Filter opts) else None))"
  by (simp_all add: buildRequestConfig_def Let_def)

lemma ListMessages_sent:
  "sent (snd (ListMessages ctx client opts)) =
     sent client @ [(ctx, if FolderID opts \<noteq> [] then MailFolderMessagesGet (FolderID opts) None
                          else MessagesGet (Some (buildRequestConfig opts)))]"
  by (simp add: ListMessages_def Let_def split: sum.split)

lemma ListMessages_folder:
  "FolderID opts \<noteq> [] \<Longrightarrow> FolderID opts' = FolderID opts \<Longrightarrow>
   ListMessages ctx client opts' = ListMessages ctx client opts"
  by (simp add: ListMessages_def Let_def)

text \<open>
  C10. With a non-empty \<open>FolderID\<close>, \<open>ListMessages\<close> sends the folder request with
  a nil configuration, so two option sets that agree on the folder give the same
  outcome whatever their \<open>Top\<close>, \<open>Skip\<close>, \<open>Filter\<close>, \<open>OrderBy\<close> and
  \<open>UnreadOnly\<close>. With an empty \<open>FolderID\<close> it sends the mailbox request, where a
  \<open>Top\<close> of 0 becomes 25, an empty \<open>OrderBy\<close> becomes \<open>receivedDateTime desc\<close>,
  and \<open>UnreadOnly\<close> conjoins \<open>isRead eq false\<close> onto the filter.
\<close>

theorem ListMessages_options:
  "(FolderID opts \<noteq> [] \<longrightarrow>
      sent (snd (ListMessages ctx client opts)) =
        sent client @ [(ctx, MailFolderMessagesGet (FolderID opts) None)]
      \<and> (\<forall>opts'. FolderID opts' = FolderID opts \<longrightarrow>
            ListMessages ctx client opts' = ListMessages ctx client opts))
   \<and> (FolderID opts = [] \<longrightarrow>
      (\<exists>cfg. sent (snd (ListMessages ctx client opts)) = sent client @ [(ctx, MessagesGet (Some cfg))]
         \<and> qp_Top cfg = Some (if Top opts = 0 then 25 else Top opts)
         \<and> qp_Orderby cfg = [if OrderBy opts = [] then ''receivedDateTime desc'' else OrderBy opts]
         \<and> qp_Skip cfg = (if 0 < sint (Skip opts) then Some (Skip opts) else None)
         \<and> qp_Filter cfg =
             (if UnreadOnly opts
              then (if Filter opts \<noteq> [] then Some (''('' @ Filter opts @ '') and isRead eq false'')
                    else Some ''isRead eq false'')
              else (if Filter opts \<noteq> [] then Some (Filter opts) else None))))"
proof (intro conjI impI allI)
  assume "FolderID opts \<noteq> []"
  then show "sent (snd (ListMessages ctx client opts)) =
        sent client @ [(ctx, MailFolderMessagesGet (FolderID opts) None)]"
    by (simp add: ListMessages_sent)
next
  fix opts' :: ListOptions
  assume "FolderID opts \<noteq> []" and "FolderID opts' = FolderID opts"
  then show "ListMessages ctx client opts' = ListMessages ctx client opts"
    by (rule ListMessages_folder)
next
  assume empty: "FolderID opts = []"
  have "sent (snd (ListMessages ctx client opts)) =
          sent client @ [(ctx, MessagesGet (Some (buildRequestConfig opts)))]"
    by (simp only: ListMessages_sent empty) simp
  with buildRequestConfig_fields [of opts]
  show "\<exists>cfg. sent (snd (ListMessages ctx client opts)) = sent client @ [(ctx, MessagesGet (Some cfg))]
         \<and> qp_Top cfg = Some (if Top opts = 0 then 25 else Top opts)
         \<and> qp_Orderby cfg = [if OrderBy opts = [] then ''receivedDateTime desc'' else OrderBy opts]
         \<and> qp_Skip cfg = (if 0 < sint (Skip opts) then Some (Skip opts) else None)
         \<and> qp_Filter cfg =
             (if UnreadOnly opts
              then (if Filter opts \<noteq> [] then Some (''('' @ Filter opts @ '') and isRead eq false'')
                    else Some ''isRead eq false'')
              else (if Filter opts \<noteq> [] then Some (Filter opts) else None))"
    by blast
qed

theorem ListMessages_options_witness:
  "FolderID \<lparr>Top = 0, Skip = 0, Filter = ''x'', OrderBy = [], UnreadOnly = True, FolderID = []\<rparr> = []
   \<and> (\<exists>cfg. sent (snd (ListMessages (WithTimeout 30)
                \<lparr>sent = [], messagesReply = (\<lambda>r. Inr []), postReply = (\<lambda>r. None)\<rparr>
                \<lparr>Top = 0, Skip = 0, Filter = ''x'', OrderBy = [], UnreadOnly = True, FolderID = []\<rparr>))
              = [(WithTimeout 30, MessagesGet (Some cfg))]
         \<and> qp_Top cfg = Some 25
         \<and> qp_Orderby cfg = [''receivedDateTime desc'']
         \<and> qp_Filter cfg = Some ''(x) and isRead eq false'')
   \<and> FolderID \<lparr>Top = 5, Skip = 3, Filter = ''x'', OrderBy = ''subject'', UnreadOnly = True,
                FolderID = ''inbox''\<rparr> \<noteq> []
   \<and> sent (snd (ListMessages (WithTimeout 30)
                \<lparr>sent = [], messagesReply = (\<lambda>r. Inr []), postReply = (\<lambda>r. None)\<rparr>
                \<lparr>Top = 5, Skip = 3, Filter = ''x'', OrderBy = ''subject'', UnreadOnly = True,
                  FolderID = ''inbox''\<rparr>))
       = [(WithTimeout 30, MailFolderMessagesGet ''inbox'' None)]"
proof -
  let ?client = "\<lparr>sent = [], messagesReply = (\<lambda>r. Inr []), postReply = (\<lambda>r. None)\<rparr>"
  let ?mailbox = "\<lparr>Top = 0, Skip = 0, Filter = ''x'', OrderBy = [], UnreadOnly = True, FolderID = []\<rparr>"
  let ?folder = "\<lparr>Top = 5, Skip = 3, Filter = ''x'', OrderBy = ''subject'', UnreadOnly = True,
                  FolderID = ''inbox''\<rparr>"
  have "\<exists>cfg. sent (snd (ListMessages (WithTimeout 30) ?client ?mailbox))
              = [(WithTimeout 30, MessagesGet (Some cfg))]
         \<and> qp_Top cfg = Some 25
         \<and> qp_Orderby cfg = [''receivedDateTime desc'']
         \<and> qp_Skip cfg = None
         \<and> qp_Filter cfg = Some ''(x) and isRead eq false''"
    using ListMessages_options [of ?mailbox "WithTimeout 30" ?client] by simp
  then have mailbox: "\<exists>cfg. sent (snd (ListMessages (WithTimeout 30) ?client ?mailbox))
              = [(WithTimeout 30, MessagesGet (Some cfg))]
         \<and> qp_Top cfg = Some 25
         \<and> qp_Orderby cfg = [''receivedDateTime desc'']
         \<and> qp_Filter cfg = Some ''(x) and isRead eq false''"
    by blast
  have nonempty: "FolderID ?folder \<noteq> []"
    by simp
  have folder: "sent (snd (ListMessages (WithTimeout 30) ?client ?folder))
       = [(WithTimeout 30, MailFolderMessagesGet ''inbox'' None)]"
    using ListMessages_options [of ?folder "WithTimeout 30" ?client, THEN conjunct1, THEN mp,
        OF nonempty, THEN conjunct1]
    by simp
  from mailbox folder show ?thesis
    by simp
qed

section \<open>Conversions from remote objects: proofs\<close>









lemma post_allI: "post r (\<lambda>v. True) \<Longrightarrow> (\<And>x. post r (Q x)) \<Longrightarrow> post r (\<lambda>v. \<forall>x. Q x v)"
  by (cases r) (simp_all add: post_def)














section \<open>Configuration persistence: proofs\<close>


lemma configPath_files [simp]: "configPath lib (w\<lparr>files := fs\<rparr>) = configPath lib w"
  by (simp add: configPath_def configDir_def os_UserHomeDir_def)




lemma exampleLib_simps:
  "filepath_Join exampleLib = (\<lambda>elems. Join elems ''/'')"
  "filepath_Dir exampleLib = (\<lambda>path. ''/home/u/.config/octl'')"
  "json_MarshalIndent_Config exampleLib = (\<lambda>cfg. Inr (Config_ClientID cfg))"
  "json_Unmarshal_Config exampleLib = (\<lambda>data. Inr \<lparr>Config_ClientID = data\<rparr>)"
  "json_MarshalIndent_Record exampleLib = (\<lambda>record. Inr (Record_Username record))"
  "json_Unmarshal_Record exampleLib = (\<lambda>data. Inr (zeroAuthenticationRecord\<lparr>Record_Username := data\<rparr>))"
  "azidentity_credentialError exampleLib = (\<lambda>options. None)"
  "azidentity_Authenticate exampleLib = (\<lambda>ctx cred scopes. Inr exampleRecord)"
  "azidentity_GetToken exampleLib = (\<lambda>ctx cred scopes. None)"
  by (simp_all add: exampleLib_def)




section \<open>Authentication: proofs\<close>

lemma authRecordPath_files [simp]: "authRecordPath lib (w\<lparr>files := fs\<rparr>) = authRecordPath lib w"
  by (simp add: authRecordPath_def ConfigDir_def configDir_def os_UserHomeDir_def)

lemma saveAuthRecord_success:
  "saveAuthRecord lib m w = (None, w') \<Longrightarrow>
   \<exists>rcd path data. record' m = Some rcd \<and> authRecordPath lib w = Inr path
     \<and> json_MarshalIndent_Record lib rcd = Inr data
     \<and> w' = w\<lparr>files := (files w)(path \<mapsto> data)\<rparr>"
  by (auto simp: saveAuthRecord_def os_MkdirAll_def os_WriteFile_def Let_def
      split: sum.splits option.splits prod.splits if_splits)

lemma Login_success:
  "Login lib ctx m w = (None, m', w') \<Longrightarrow>
   \<exists>rcd cred.
     NewDeviceCodeCredential lib
       \<lparr>Options_ClientID = clientID m, Options_TenantID = ''common'',
        Options_AuthenticationRecord = zeroAuthenticationRecord,
        Options_DisableAutomaticAuthentication = False, Options_UserPrompt = True\<rparr> = Inr cred
     \<and> azidentity_Authenticate lib ctx cred Scopes = Inr rcd
     \<and> m' = m\<lparr>credential := Some cred, record' := Some rcd\<rparr>
     \<and> saveAuthRecord lib m' w = (None, w')"
  by (auto simp: Login_def Let_def split: sum.splits option.splits prod.splits)

lemma loadAuthRecord_present:
  "authRecordPath lib w = Inr path \<Longrightarrow> files w path = Some data \<Longrightarrow> path \<notin> read_denied w \<Longrightarrow>
   json_Unmarshal_Record lib data = Inr rcd \<Longrightarrow> loadAuthRecord lib w = Inr rcd"
  by (simp add: loadAuthRecord_def os_ReadFile_def)

lemma LoadCredential_loaded:
  "loadAuthRecord lib w = Inr rcd \<Longrightarrow>
   azidentity_credentialError lib
     \<lparr>Options_ClientID = clientID m, Options_TenantID = ''common'',
      Options_AuthenticationRecord = rcd,
      Options_DisableAutomaticAuthentication = True, Options_UserPrompt = False\<rparr> = None \<Longrightarrow>
   LoadCredential lib m w =
     (None, m\<lparr>credential := Some (Credential
                \<lparr>Options_ClientID = clientID m, Options_TenantID = ''common'',
                 Options_AuthenticationRecord = rcd,
                 Options_DisableAutomaticAuthentication = True, Options_UserPrompt = False\<rparr>),
              record' := Some rcd\<rparr>)"
  by (simp add: LoadCredential_def NewDeviceCodeCredential_def)

text \<open>
  C1. After a successful \<open>Login\<close> the manager holds the record \<open>Authenticate\<close>
  returned and the file \<open>auth_record.json\<close> under the config directory holds its
  encoding. If that encoding decodes to the record, the file can be read and the
  identity library accepts the options, \<open>LoadCredential\<close> in a fresh manager then
  succeeds, with a credential made from exactly that record and with automatic
  authentication disabled.
\<close>

theorem Login_then_LoadCredential:
  assumes login: "Login lib ctx m w = (None, m', w')"
  shows "\<exists>rcd path data.
           record' m' = Some rcd
         \<and> authRecordPath lib w' = Inr path
         \<and> (\<exists>dir. ConfigDir lib w' = Inr dir \<and> path = filepath_Join lib [dir, authRecordFileName])
         \<and> json_MarshalIndent_Record lib rcd = Inr data
         \<and> files w' path = Some data
         \<and> (json_Unmarshal_Record lib data = Inr rcd \<longrightarrow>
            path \<notin> read_denied w' \<longrightarrow>
            azidentity_credentialError lib
              \<lparr>Options_ClientID = cid, Options_TenantID = ''common'',
               Options_AuthenticationRecord = rcd,
               Options_DisableAutomaticAuthentication = True, Options_UserPrompt = False\<rparr> = None \<longrightarrow>
            LoadCredential lib (NewManager cid) w' =
              (None, \<lparr>clientID = cid,
                      credential = Some (Credential
                        \<lparr>Options_ClientID = cid, Options_TenantID = ''common'',
                         Options_AuthenticationRecord = rcd,
                         Options_DisableAutomaticAuthentication = True, Options_UserPrompt = False\<rparr>),
                      record' = Some rcd\<rparr>))"
proof -
  from Login_success [OF login] obtain rcd cred where
    m': "m' = m\<lparr>credential := Some cred, record' := Some rcd\<rparr>" and
    saved: "saveAuthRecord lib m' w = (None, w')"
    by blast
  from saveAuthRecord_success [OF saved] m' obtain path data where
    path: "authRecordPath lib w = Inr path" and
    data: "json_MarshalIndent_Record lib rcd = Inr data" and
    w': "w' = w\<lparr>files := (files w)(path \<mapsto> data)\<rparr>"
    by auto
  have rec: "record' m' = Some rcd"
    using m' by simp
  have path': "authRecordPath lib w' = Inr path"
    using path w' by simp
  have under: "\<exists>dir. ConfigDir lib w' = Inr dir \<and> path = filepath_Join lib [dir, authRecordFileName]"
    using path' by (auto simp: authRecordPath_def split: sum.splits)
  have stored: "files w' path = Some data"
    using w' by simp
  have load: "LoadCredential lib (NewManager cid) w' =
              (None, \<lparr>clientID = cid,
                      credential = Some (Credential
                        \<lparr>Options_ClientID = cid, Options_TenantID = ''common'',
                         Options_AuthenticationRecord = rcd,
                         Options_DisableAutomaticAuthentication = True, Options_UserPrompt = False\<rparr>),
                      record' = Some rcd\<rparr>)"
    if "json_Unmarshal_Record lib data = Inr rcd" and "path \<notin> read_denied w'"
      and "azidentity_credentialError lib
              \<lparr>Options_ClientID = cid, Options_TenantID = ''common'',
               Options_AuthenticationRecord = rcd,
               Options_DisableAutomaticAuthentication = True, Options_UserPrompt = False\<rparr> = None"
  proof -
    have "loadAuthRecord lib w' = Inr rcd"
      using path' stored that(2) that(1) by (rule loadAuthRecord_present)
    from LoadCredential_loaded [OF this, of "NewManager cid"] that(3) show ?thesis
      by (simp add: NewManager_def)
  qed
  from under obtain dir where
    dir: "ConfigDir lib w' = Inr dir" and
    joined: "path = filepath_Join lib [dir, authRecordFileName]"
    by blast
  show ?thesis
  proof (intro exI conjI impI)
    show "record' m' = Some rcd"
      by (rule rec)
    show "authRecordPath lib w' = Inr path"
      by (rule path')
    show "ConfigDir lib w' = Inr dir"
      by (rule dir)
    show "path = filepath_Join lib [dir, authRecordFileName]"
      by (rule joined)
    show "json_MarshalIndent_Record lib rcd = Inr data"
      by (rule data)
    show "files w' path = Some data"
      by (rule stored)
  qed (rule load)
qed

lemma example_authRecordPath:
  "authRecordPath exampleLib exampleWorld = Inr ''/home/u/.config/octl/auth_record.json''"
  by (simp add: authRecordPath_def ConfigDir_def configDir_def os_UserHomeDir_def exampleLib_simps
      exampleWorld_def configDirName_def authRecordFileName_def)

lemma example_Login:
  "Login exampleLib (WithTimeout 300) (NewManager ''id'') exampleWorld =
     (None,
      \<lparr>clientID = ''id'',
       credential = Some (Credential
          \<lparr>Options_ClientID = ''id'', Options_TenantID = ''common'',
           Options_AuthenticationRecord = zeroAuthenticationRecord,
           Options_DisableAutomaticAuthentication = False, Options_UserPrompt = True\<rparr>),
       record' = Some exampleRecord\<rparr>,
      exampleWorld\<lparr>files := [''/home/u/.config/octl/auth_record.json'' \<mapsto> ''user'']\<rparr>)"
  by (simp add: Login_def NewDeviceCodeCredential_def saveAuthRecord_def example_authRecordPath
      os_MkdirAll_def os_WriteFile_def exampleLib_simps NewManager_def Let_def)
     (simp add: exampleWorld_def exampleRecord_def zeroAuthenticationRecord_def)

theorem Login_then_LoadCredential_witness:
  "Login exampleLib (WithTimeout 300) (NewManager ''id'') exampleWorld =
     (None,
      \<lparr>clientID = ''id'',
       credential = Some (Credential
          \<lparr>Options_ClientID = ''id'', Options_TenantID = ''common'',
           Options_AuthenticationRecord = zeroAuthenticationRecord,
           Options_DisableAutomaticAuthentication = False, Options_UserPrompt = True\<rparr>),
       record' = Some exampleRecord\<rparr>,
      exampleWorld\<lparr>files := [''/home/u/.config/octl/auth_record.json'' \<mapsto> ''user'']\<rparr>)
   \<and> LoadCredential exampleLib (NewManager ''id'')
        (exampleWorld\<lparr>files := [''/home/u/.config/octl/auth_record.json'' \<mapsto> ''user'']\<rparr>) =
       (None, \<lparr>clientID = ''id'',
               credential = Some (Credential
                 \<lparr>Options_ClientID = ''id'', Options_TenantID = ''common'',
                  Options_AuthenticationRecord = exampleRecord,
                  Options_DisableAutomaticAuthentication = True, Options_UserPrompt = False\<rparr>),
               record' = Some exampleRecord\<rparr>)"
proof -
  let ?w' = "exampleWorld\<lparr>files := [''/home/u/.config/octl/auth_record.json'' \<mapsto> ''user'']\<rparr>"
  from Login_then_LoadCredential [OF example_Login, of "''id''"]
  obtain rcd path data where
    rec: "Some exampleRecord = Some rcd" and
    path: "authRecordPath exampleLib ?w' = Inr path" and
    data: "json_MarshalIndent_Record exampleLib rcd = Inr data" and
    load: "json_Unmarshal_Record exampleLib data = Inr rcd \<longrightarrow>
            path \<notin> read_denied ?w' \<longrightarrow>
            azidentity_credentialError exampleLib
              \<lparr>Options_ClientID = ''id'', Options_TenantID = ''common'',
               Options_AuthenticationRecord = rcd,
               Options_DisableAutomaticAuthentication = True, Options_UserPrompt = False\<rparr> = None \<longrightarrow>
            LoadCredential exampleLib (NewManager ''id'') ?w' =
              (None, \<lparr>clientID = ''id'',
                      credential = Some (Credential
                        \<lparr>Options_ClientID = ''id'', Options_TenantID = ''common'',
                         Options_AuthenticationRecord = rcd,
                         Options_DisableAutomaticAuthentication = True, Options_UserPrompt = False\<rparr>),
                      record' = Some rcd\<rparr>)"
    by auto
  have rcd: "rcd = exampleRecord"
    using rec by simp
  have "data = ''user''"
    using data by (simp add: rcd exampleLib_simps exampleRecord_def)
  then have decodes: "json_Unmarshal_Record exampleLib data = Inr rcd"
    by (simp add: rcd exampleLib_simps exampleRecord_def)
  have readable: "path \<notin> read_denied ?w'"
    by (simp add: exampleWorld_def)
  have accepted: "azidentity_credentialError exampleLib
              \<lparr>Options_ClientID = ''id'', Options_TenantID = ''common'',
               Options_AuthenticationRecord = rcd,
               Options_DisableAutomaticAuthentication = True, Options_UserPrompt = False\<rparr> = None"
    by (simp add: exampleLib_simps)
  from load decodes readable accepted rcd example_Login show ?thesis
    by simp
qed


lemma LoadCredential_failed:
  "loadAuthRecord lib w = Inl err \<Longrightarrow> LoadCredential lib m w = (Some err, m)"
  by (simp add: LoadCredential_def)












section \<open>StripHTML: proofs\<close>

subsection \<open>Prefixes, suffixes and white space\<close>



















subsection \<open>Splitting and joining lines\<close>















subsection \<open>The loop over the characters\<close>



lemma writes_bracket:
  "k < length rs \<Longrightarrow> rs ! k = ''<'' \<or> rs ! k = ''>'' \<Longrightarrow> \<not> writes inTag rs ! k"
proof (induction rs arbitrary: inTag k)
  case Nil
  then show ?case by simp
next
  case (Cons r rs)
  then show ?case
    by (cases k) auto
qed




subsection \<open>The whole function\<close>







end
